theory Spec2Isabelle
  imports Complex_Main
begin

section \<open>Spring Actuator checker: data model\<close>

text \<open>
  A shallow embedding of \<^verbatim>\<open>spring_actuator_checker.py\<close>. The HTTP transport
  (the \<^verbatim>\<open>requests\<close> library), the wall clock and the logger are outside the
  program: the transport and the clock are inputs of the model, and logging, which writes
  no value the program reads back, is left out.
\<close>

subsection \<open>Python values\<close>

text \<open>
  The values \<^verbatim>\<open>response.json()\<close> can return. \<open>PNone\<close> is Python's
  \<^verbatim>\<open>None\<close>, which is also what the JSON literal \<^verbatim>\<open>null\<close> decodes to. A
  dictionary is an association list in insertion order, with the keys pairwise distinct;
  a float is read as a real number.
\<close>

datatype pyval =
    PNone
  | PBool bool
  | PInt int
  | PFloat real
  | PStr string
  | PList "pyval list"
  | PDict "(string \<times> pyval) list"

text \<open>The exceptions that leave a function of the module.\<close>

datatype py_exc =
    JSONDecodeError string
  | TypeError
  | KeyError string

text \<open>\<^verbatim>\<open>type(v).__name__\<close>\<close>

fun type_name :: "pyval \<Rightarrow> string" where
  "type_name PNone = ''NoneType''"
| "type_name (PBool b) = ''bool''"
| "type_name (PInt i) = ''int''"
| "type_name (PFloat x) = ''float''"
| "type_name (PStr s) = ''str''"
| "type_name (PList xs) = ''list''"
| "type_name (PDict kvs) = ''dict''"

text \<open>Truth value of an object, as \<^verbatim>\<open>if v:\<close> and \<^verbatim>\<open>v or d\<close> test it.\<close>

fun truthy :: "pyval \<Rightarrow> bool" where
  "truthy PNone = False"
| "truthy (PBool b) = b"
| "truthy (PInt i) = (i \<noteq> 0)"
| "truthy (PFloat x) = (x \<noteq> 0)"
| "truthy (PStr s) = (s \<noteq> [])"
| "truthy (PList xs) = (xs \<noteq> [])"
| "truthy (PDict kvs) = (kvs \<noteq> [])"

text \<open>\<^verbatim>\<open>s.startswith(p)\<close>\<close>

definition startswith :: "string \<Rightarrow> string \<Rightarrow> bool" where
  "startswith s p = (take (length p) s = p)"

text \<open>\<^verbatim>\<open>needle in hay\<close> on two strings: a contiguous occurrence.\<close>

fun str_contains :: "string \<Rightarrow> string \<Rightarrow> bool" where
  "str_contains needle [] = (needle = [])"
| "str_contains needle (c # cs) =
     (startswith (c # cs) needle \<or> str_contains needle cs)"

text \<open>
  \<^verbatim>\<open>key in v\<close> for a string \<open>key\<close>: membership among the keys of a
  dictionary, among the elements of a list, substring test on a string, and
  \<^verbatim>\<open>TypeError\<close> on a value that is not a container.
\<close>

fun py_in :: "string \<Rightarrow> pyval \<Rightarrow> py_exc + bool" where
  "py_in key (PDict kvs) = Inr (key \<in> set (map fst kvs))"
| "py_in key (PList xs) = Inr (PStr key \<in> set xs)"
| "py_in key (PStr s) = Inr (str_contains key s)"
| "py_in key PNone = Inl TypeError"
| "py_in key (PBool b) = Inl TypeError"
| "py_in key (PInt i) = Inl TypeError"
| "py_in key (PFloat x) = Inl TypeError"

text \<open>
  \<^verbatim>\<open>v[key]\<close> for a string \<open>key\<close>: only a dictionary can be indexed by a
  string.
\<close>

fun py_getitem :: "pyval \<Rightarrow> string \<Rightarrow> py_exc + pyval" where
  "py_getitem (PDict kvs) key =
     (case map_of kvs key of None \<Rightarrow> Inl (KeyError key) | Some v \<Rightarrow> Inr v)"
| "py_getitem (PList xs) key = Inl TypeError"
| "py_getitem (PStr s) key = Inl TypeError"
| "py_getitem PNone key = Inl TypeError"
| "py_getitem (PBool b) key = Inl TypeError"
| "py_getitem (PInt i) key = Inl TypeError"
| "py_getitem (PFloat x) key = Inl TypeError"

subsection \<open>Formatting\<close>

text \<open>\<^verbatim>\<open>str(n)\<close> of an integer, in decimal.\<close>

definition digit_char :: "nat \<Rightarrow> char" where
  "digit_char d = char_of (of_char CHR ''0'' + d)"

fun str_nat :: "nat \<Rightarrow> string" where
  "str_nat n = (if n < 10 then [digit_char n] else str_nat (n div 10) @ [digit_char (n mod 10)])"

declare str_nat.simps [simp del]

definition str_int :: "int \<Rightarrow> string" where
  "str_int i = (if i < 0 then CHR ''-'' # str_nat (nat (- i)) else str_nat (nat i))"

text \<open>An optional string inside an f-string: \<^verbatim>\<open>None\<close> prints as its name.\<close>

fun str_opt :: "string option \<Rightarrow> string" where
  "str_opt None = ''None''"
| "str_opt (Some s) = s"

text \<open>\<^verbatim>\<open>s.upper()\<close>, on the ASCII letters.\<close>

definition upper_char :: "char \<Rightarrow> char" where
  "upper_char c =
     (let n = (of_char c :: nat) in if 97 \<le> n \<and> n \<le> 122 then char_of (n - 32) else c)"

definition upper :: "string \<Rightarrow> string" where
  "upper s = map upper_char s"

text \<open>\<^verbatim>\<open>s.rstrip('/')\<close>\<close>

definition rstrip_slash :: "string \<Rightarrow> string" where
  "rstrip_slash s = rev (dropWhile (\<lambda>c. c = CHR ''/'') (rev s))"

subsection \<open>The transport\<close>

text \<open>
  What \<^verbatim>\<open>response.json()\<close> raises on a body that is not JSON. With the
  standard \<^verbatim>\<open>json\<close> module as the decoder it is always a
  \<^verbatim>\<open>json.JSONDecodeError\<close>, the class the unit tests raise and the general probe
  catches; from version 2.27 of the library on it is a
  \<^verbatim>\<open>requests.exceptions.RequestException\<close> as well, which the flag records.
\<close>

record decode_error =
  is_request_exception :: bool
  decode_msg :: string

record http_response =
  resp_status_code :: int
  resp_text :: string
  resp_json :: "decode_error + pyval"

record request =
  req_method :: string
  req_url :: string
  req_headers :: "(string \<times> string) list"
  req_json :: pyval
  req_timeout :: int
  req_verify :: bool

text \<open>
  One call of \<^verbatim>\<open>session.get\<close> or \<^verbatim>\<open>session.request\<close>: it either raises a
  \<^verbatim>\<open>RequestException\<close> (\<open>Inl\<close>, with the text of \<^verbatim>\<open>str(e)\<close>) or returns a
  response. The three clock readings are the values of \<^verbatim>\<open>time.time()\<close> before the
  call, right after it returned, and inside the exception handler.
\<close>

record http_call =
  t_start :: real
  reply :: "string + http_response"
  t_response :: real
  t_except :: real

record world =
  session_request :: "request \<Rightarrow> http_call"
  datetime_now :: real

subsection \<open>Result records\<close>

record APICheckResult =
  endpoint :: string
  method' :: string
  status_code :: int
  response_time :: real
  success :: bool
  response_body :: pyval
  error_message :: "string option"

record ModuleHealthStatus =
  module_name' :: string
  overall_status :: string
  actuator_health :: pyval
  api_checks :: "APICheckResult list"
  deployment_status :: string
  timestamp :: real

record contract_result =
  cr_endpoint :: string
  cr_method :: string
  contract_valid :: bool
  request_validation :: "(string \<times> pyval) list"
  response_validation :: "(string \<times> pyval) list"
  errors :: "string list"

record SpringActuatorChecker =
  base_url :: string
  timeout :: int
  verify_ssl :: bool

section \<open>The checker\<close>

text \<open>
  \<^verbatim>\<open>__init__\<close>. The session and its two default headers are the library's: it
  adds them to every request by itself, and the program never reads them.
\<close>

definition init :: "string \<Rightarrow> int \<Rightarrow> bool \<Rightarrow> SpringActuatorChecker" where
  "init url t v = \<lparr>base_url = rstrip_slash url, timeout = t, verify_ssl = v\<rparr>"

subsection \<open>Fixed-path probes\<close>

text \<open>
  The body shared, word for word, by \<^verbatim>\<open>check_actuator_health\<close> and
  \<^verbatim>\<open>check_actuator_info\<close>, which differ in the path only. The body is decoded
  only when the status is 200, inside the \<^verbatim>\<open>try\<close>: a decode error that is a
  \<^verbatim>\<open>RequestException\<close> is caught by the handler, any other leaves the function.
\<close>

definition get_request :: "SpringActuatorChecker \<Rightarrow> string \<Rightarrow> request" where
  "get_request self url =
     \<lparr>req_method = ''GET'', req_url = url, req_headers = [], req_json = PNone,
      req_timeout = timeout self, req_verify = verify_ssl self\<rparr>"

definition request_failed :: "string \<Rightarrow> string \<Rightarrow> http_call \<Rightarrow> string \<Rightarrow> APICheckResult" where
  "request_failed url m c e =
     \<lparr>endpoint = url, method' = m, status_code = 0,
      response_time = t_except c - t_start c, success = False,
      response_body = PNone, error_message = Some e\<rparr>"

definition check_fixed :: "SpringActuatorChecker \<Rightarrow> world \<Rightarrow> string \<Rightarrow> py_exc + APICheckResult" where
  "check_fixed self w path =
     (let endpoint = base_url self @ path;
          c = session_request w (get_request self endpoint)
      in case reply c of
           Inl e \<Rightarrow> Inr (request_failed endpoint ''GET'' c e)
         | Inr response \<Rightarrow>
             (let response_time = t_response c - t_start c;
                  success = (resp_status_code response = 200)
              in if success then
                   (case resp_json response of
                      Inr body \<Rightarrow>
                        Inr \<lparr>endpoint = endpoint, method' = ''GET'',
                             status_code = resp_status_code response,
                             response_time = response_time, success = success,
                             response_body = body, error_message = None\<rparr>
                    | Inl d \<Rightarrow>
                        if is_request_exception d
                        then Inr (request_failed endpoint ''GET'' c (decode_msg d))
                        else Inl (JSONDecodeError (decode_msg d)))
                 else
                   Inr \<lparr>endpoint = endpoint, method' = ''GET'',
                        status_code = resp_status_code response,
                        response_time = response_time, success = success,
                        response_body = PNone,
                        error_message = Some (''HTTP '' @ str_int (resp_status_code response)
                                               @ '': '' @ resp_text response)\<rparr>))"

definition check_actuator_health :: "SpringActuatorChecker \<Rightarrow> world \<Rightarrow> py_exc + APICheckResult" where
  "check_actuator_health self w = check_fixed self w ''/actuator/health''"

definition check_actuator_info :: "SpringActuatorChecker \<Rightarrow> world \<Rightarrow> py_exc + APICheckResult" where
  "check_actuator_info self w = check_fixed self w ''/actuator/info''"

subsection \<open>The general probe\<close>

definition full_url :: "SpringActuatorChecker \<Rightarrow> string \<Rightarrow> string" where
  "full_url self ep = (if \<not> startswith ep ''http'' then base_url self @ ep else ep)"

definition custom_request ::
  "SpringActuatorChecker \<Rightarrow> string \<Rightarrow> string \<Rightarrow> (string \<times> string) list option \<Rightarrow> pyval \<Rightarrow> request" where
  "custom_request self ep m headers json_data =
     \<lparr>req_method = upper m, req_url = full_url self ep,
      req_headers = (case headers of None \<Rightarrow> [] | Some h \<Rightarrow> if h \<noteq> [] then h else []),
      req_json = json_data, req_timeout = timeout self, req_verify = verify_ssl self\<rparr>"

text \<open>
  \<^verbatim>\<open>check_custom_api\<close>. The body is decoded whatever the status, in a
  \<^verbatim>\<open>try\<close> of its own that catches \<^verbatim>\<open>json.JSONDecodeError\<close>, so the function
  always returns a result.
\<close>

definition check_custom_api ::
  "SpringActuatorChecker \<Rightarrow> world \<Rightarrow> string \<Rightarrow> string \<Rightarrow> (string \<times> string) list option
     \<Rightarrow> pyval \<Rightarrow> int \<Rightarrow> APICheckResult" where
  "check_custom_api self w ep m headers json_data expected_status =
     (let url = full_url self ep;
          c = session_request w (custom_request self ep m headers json_data)
      in case reply c of
           Inl e \<Rightarrow> request_failed url (upper m) c e
         | Inr response \<Rightarrow>
             (let response_time = t_response c - t_start c;
                  success = (resp_status_code response = expected_status);
                  body = (case resp_json response of Inr v \<Rightarrow> v | Inl d \<Rightarrow> PNone)
              in \<lparr>endpoint = url, method' = upper m,
                  status_code = resp_status_code response,
                  response_time = response_time, success = success,
                  response_body = body,
                  error_message =
                    (if success then None
                     else Some (''Expected '' @ str_int expected_status @ '', got ''
                                @ str_int (resp_status_code response)))\<rparr>))"

subsection \<open>Deployment status\<close>

definition derive_status :: "APICheckResult \<Rightarrow> APICheckResult \<Rightarrow> string" where
  "derive_status health_result info_result =
     (let deployment_status = ''UNKNOWN'';
          deployment_status =
            (if success health_result \<and> success info_result then ''HEALTHY''
             else if success health_result then ''DEGRADED''
             else ''DOWN'')
      in deployment_status)"

definition check_deployment_status ::
  "SpringActuatorChecker \<Rightarrow> world \<Rightarrow> string \<Rightarrow> py_exc + ModuleHealthStatus" where
  "check_deployment_status self w name =
     (case check_actuator_health self w of
        Inl e \<Rightarrow> Inl e
      | Inr health_result \<Rightarrow>
          (case check_actuator_info self w of
             Inl e \<Rightarrow> Inl e
           | Inr info_result \<Rightarrow>
               (let deployment_status = derive_status health_result info_result
                in Inr \<lparr>module_name' = name,
                        overall_status = deployment_status,
                        actuator_health =
                          (if truthy (response_body health_result)
                           then response_body health_result else PDict []),
                        api_checks = [health_result, info_result],
                        deployment_status = deployment_status,
                        timestamp = datetime_now w\<rparr>)))"

subsection \<open>Contract validation\<close>

text \<open>
  The loop over \<^verbatim>\<open>expected_response_schema.items()\<close>, with the list of errors
  collected so far. The schema is the list of its items in insertion order.
\<close>

fun check_schema :: "pyval \<Rightarrow> (string \<times> string) list \<Rightarrow> string list \<Rightarrow> py_exc + string list" where
  "check_schema body [] errs = Inr errs"
| "check_schema body ((key, expected_type) # rest) errs =
     (case py_in key body of
        Inl e \<Rightarrow> Inl e
      | Inr present \<Rightarrow>
          if \<not> present
          then check_schema body rest (errs @ [''Missing expected field: '' @ key])
          else (case py_getitem body key of
                  Inl e \<Rightarrow> Inl e
                | Inr v \<Rightarrow>
                    (let actual_type = type_name v
                     in if actual_type \<noteq> expected_type
                        then check_schema body rest
                               (errs @ [''Type mismatch for '' @ key @ '': expected ''
                                        @ expected_type @ '', got '' @ actual_type])
                        else check_schema body rest errs)))"

definition validate_request_response_contract ::
  "SpringActuatorChecker \<Rightarrow> world \<Rightarrow> string \<Rightarrow> string \<Rightarrow> pyval
     \<Rightarrow> (string \<times> string) list option \<Rightarrow> (string \<times> string) list option
     \<Rightarrow> py_exc + contract_result" where
  "validate_request_response_contract self w ep m request_data expected_response_schema headers =
     (let api_result = check_custom_api self w ep m headers request_data 200;
          contract_result =
            \<lparr>cr_endpoint = ep, cr_method = m, contract_valid = False,
             request_validation = [], response_validation = [], errors = []\<rparr>
      in if \<not> success api_result
         then Inr (contract_result
                     \<lparr>errors := errors contract_result
                                  @ [''API call failed: '' @ str_opt (error_message api_result)]\<rparr>)
         else
           (case (case expected_response_schema of
                    None \<Rightarrow> Inr (errors contract_result)
                  | Some schema \<Rightarrow>
                      if schema = [] then Inr (errors contract_result)
                      else check_schema (response_body api_result) schema (errors contract_result))
            of Inl e \<Rightarrow> Inl e
             | Inr errs \<Rightarrow>
                 Inr (contract_result\<lparr>errors := errs, contract_valid := (length errs = 0)\<rparr>)))"

section \<open>Test fixtures\<close>

text \<open>
  The checker of the unit tests (\<^verbatim>\<open>setUp\<close>), and a transport that answers the
  health path, the info path and every other URL with three given replies.
\<close>

definition test_checker :: SpringActuatorChecker where
  "test_checker = init ''https://test-app.com'' 10 False"

definition sample_call :: "string + http_response \<Rightarrow> http_call" where
  "sample_call r = \<lparr>t_start = 0, reply = r, t_response = 1, t_except = 2\<rparr>"

definition sample_world ::
  "string + http_response \<Rightarrow> string + http_response \<Rightarrow> string + http_response \<Rightarrow> world" where
  "sample_world health info other =
     \<lparr>session_request =
        (\<lambda>rq. if req_url rq = ''https://test-app.com/actuator/health'' then sample_call health
              else if req_url rq = ''https://test-app.com/actuator/info'' then sample_call info
              else sample_call other),
      datetime_now = 3\<rparr>"

definition response_up :: http_response where
  \<open>response_up =
     \<lparr>resp_status_code = 200, resp_text = ''{"status":"UP"}'',
      resp_json = Inr (PDict [(''status'', PStr ''UP'')])\<rparr>\<close>

definition response_down :: http_response where
  \<open>response_down =
     \<lparr>resp_status_code = 503, resp_text = ''{"status":"DOWN"}'',
      resp_json = Inr (PDict [(''status'', PStr ''DOWN'')])\<rparr>\<close>

definition response_html :: "bool \<Rightarrow> http_response" where
  "response_html is_req =
     \<lparr>resp_status_code = 200, resp_text = ''<html>Not JSON response</html>'',
      resp_json = Inl \<lparr>is_request_exception = is_req, decode_msg = ''Expecting value''\<rparr>\<rparr>"

section \<open>Auxiliary facts\<close>

lemmas fixture_defs = test_checker_def init_def rstrip_slash_def sample_world_def sample_call_def
  response_up_def response_down_def response_html_def

lemmas probe_defs = check_actuator_health_def check_actuator_info_def check_fixed_def
  get_request_def request_failed_def check_custom_api_def custom_request_def full_url_def
  startswith_def Let_def

lemma str_int_503: "str_int 503 = ''503''"
  by code_simp

lemma str_int_200: "str_int 200 = ''200''"
  by code_simp

lemma str_int_201: "str_int 201 = ''201''"
  by code_simp

lemma upper_GET: "upper ''GET'' = ''GET''"
  by code_simp

lemma startswith_iff: "startswith s p \<longleftrightarrow> (\<exists>r. s = p @ r)"
  unfolding startswith_def by (metis append_eq_conv_conj append_take_drop_id)

lemma derive_status_eq:
  "derive_status h i =
     (if success h \<and> success i then ''HEALTHY'' else if success h then ''DEGRADED'' else ''DOWN'')"
  by (simp add: derive_status_def)

lemma check_deployment_status_Inr:
  assumes "check_deployment_status self w name = Inr m"
  obtains h i where "check_actuator_health self w = Inr h" "check_actuator_info self w = Inr i"
    "m = \<lparr>module_name' = name, overall_status = derive_status h i,
          actuator_health = (if truthy (response_body h) then response_body h else PDict []),
          api_checks = [h, i], deployment_status = derive_status h i,
          timestamp = datetime_now w\<rparr>"
  using assms unfolding check_deployment_status_def
  by (auto split: sum.splits simp: Let_def)

lemma custom_failure_has_message:
  "\<not> success (check_custom_api self w ep m headers json_data expected_status)
   \<Longrightarrow> \<exists>msg. error_message (check_custom_api self w ep m headers json_data expected_status) = Some msg"
  by (auto simp: check_custom_api_def request_failed_def Let_def split: sum.splits)

text \<open>A fixed-path probe that received a status other than 200.\<close>

lemma check_fixed_non200:
  assumes "reply (session_request w (get_request self (base_url self @ path))) = Inr resp"
    and "resp_status_code resp \<noteq> 200"
  shows "check_fixed self w path =
           Inr \<lparr>endpoint = base_url self @ path, method' = ''GET'',
                status_code = resp_status_code resp,
                response_time = t_response (session_request w (get_request self (base_url self @ path)))
                                - t_start (session_request w (get_request self (base_url self @ path))),
                success = False, response_body = PNone,
                error_message = Some (''HTTP '' @ str_int (resp_status_code resp) @ '': '' @ resp_text resp)\<rparr>"
  using assms by (simp add: check_fixed_def Let_def)

text \<open>A fixed-path probe that received status 200 with a JSON body.\<close>

lemma check_fixed_200_json:
  assumes "reply (session_request w (get_request self (base_url self @ path))) = Inr resp"
    and "resp_status_code resp = 200" and "resp_json resp = Inr body"
  shows "check_fixed self w path =
           Inr \<lparr>endpoint = base_url self @ path, method' = ''GET'',
                status_code = 200,
                response_time = t_response (session_request w (get_request self (base_url self @ path)))
                                - t_start (session_request w (get_request self (base_url self @ path))),
                success = True, response_body = body, error_message = None\<rparr>"
  using assms by (simp add: check_fixed_def Let_def)

lemma check_fixed_success_iff:
  "check_fixed self w path = Inr r \<Longrightarrow> success r = (status_code r = 200)"
  by (auto simp: check_fixed_def request_failed_def Let_def split: sum.splits if_splits)

text \<open>The general probe after a response, and after a transport failure.\<close>

lemma check_custom_api_received:
  assumes "reply (session_request w (custom_request self ep m headers json_data)) = Inr resp"
  shows "check_custom_api self w ep m headers json_data expected_status =
           \<lparr>endpoint = full_url self ep, method' = upper m,
            status_code = resp_status_code resp,
            response_time = t_response (session_request w (custom_request self ep m headers json_data))
                            - t_start (session_request w (custom_request self ep m headers json_data)),
            success = (resp_status_code resp = expected_status),
            response_body = (case resp_json resp of Inr v \<Rightarrow> v | Inl d \<Rightarrow> PNone),
            error_message =
              (if resp_status_code resp = expected_status then None
               else Some (''Expected '' @ str_int expected_status @ '', got ''
                          @ str_int (resp_status_code resp)))\<rparr>"
  using assms by (simp add: check_custom_api_def Let_def)

lemma check_custom_api_failed:
  assumes "reply (session_request w (custom_request self ep m headers json_data)) = Inl e"
  shows "check_custom_api self w ep m headers json_data expected_status =
           \<lparr>endpoint = full_url self ep, method' = upper m, status_code = 0,
            response_time = t_except (session_request w (custom_request self ep m headers json_data))
                            - t_start (session_request w (custom_request self ep m headers json_data)),
            success = False, response_body = PNone, error_message = Some e\<rparr>"
  using assms by (simp add: check_custom_api_def request_failed_def Let_def)

text \<open>On a dictionary the loop over the schema never raises.\<close>

lemma check_schema_dict:
  "\<exists>errs'. check_schema (PDict kvs) schema errs = Inr errs'"
proof (induction schema arbitrary: errs)
  case Nil
  show ?case by simp
next
  case (Cons kt schema)
  obtain key expected_type where kt: "kt = (key, expected_type)" by (cases kt)
  show ?case
  proof (cases "key \<in> set (map fst kvs)")
    case False
    then show ?thesis using Cons.IH kt by simp
  next
    case True
    then obtain v where "map_of kvs key = Some v"
      by (metis map_of_eq_None_iff not_Some_eq set_map)
    then show ?thesis using True Cons.IH kt by (simp add: Let_def)
  qed
qed

text \<open>The probes on the fixtures.\<close>

lemma health_up:
  "check_actuator_health test_checker (sample_world (Inr response_up) i other)
   = Inr \<lparr>endpoint = ''https://test-app.com/actuator/health'', method' = ''GET'',
          status_code = 200, response_time = 1, success = True,
          response_body = PDict [(''status'', PStr ''UP'')], error_message = None\<rparr>"
  by (simp add: fixture_defs probe_defs)

lemma health_down:
  \<open>check_actuator_health test_checker (sample_world (Inr response_down) i other)
   = Inr \<lparr>endpoint = ''https://test-app.com/actuator/health'', method' = ''GET'',
          status_code = 503, response_time = 1, success = False,
          response_body = PNone, error_message = Some ''HTTP 503: {"status":"DOWN"}''\<rparr>\<close>
  by (simp add: fixture_defs probe_defs str_int_503)

lemma info_up:
  "check_actuator_info test_checker (sample_world h (Inr response_up) other)
   = Inr \<lparr>endpoint = ''https://test-app.com/actuator/info'', method' = ''GET'',
          status_code = 200, response_time = 1, success = True,
          response_body = PDict [(''status'', PStr ''UP'')], error_message = None\<rparr>"
  by (simp add: fixture_defs probe_defs)

lemma info_down:
  \<open>check_actuator_info test_checker (sample_world h (Inr response_down) other)
   = Inr \<lparr>endpoint = ''https://test-app.com/actuator/info'', method' = ''GET'',
          status_code = 503, response_time = 1, success = False,
          response_body = PNone, error_message = Some ''HTTP 503: {"status":"DOWN"}''\<rparr>\<close>
  by (simp add: fixture_defs probe_defs str_int_503)

lemma custom_refused:
  "check_custom_api test_checker (sample_world h i (Inl ''Connection refused''))
     ''/api/users'' ''GET'' None PNone expected
   = \<lparr>endpoint = ''https://test-app.com/api/users'', method' = ''GET'',
      status_code = 0, response_time = 2, success = False,
      response_body = PNone, error_message = Some ''Connection refused''\<rparr>"
  by (simp add: fixture_defs probe_defs upper_GET)

lemma custom_down:
  "check_custom_api test_checker (sample_world h i (Inr response_down))
     ''/api/users'' ''GET'' None PNone 200
   = \<lparr>endpoint = ''https://test-app.com/api/users'', method' = ''GET'',
      status_code = 503, response_time = 1, success = False,
      response_body = PDict [(''status'', PStr ''DOWN'')],
      error_message = Some ''Expected 200, got 503''\<rparr>"
  by (simp add: fixture_defs probe_defs upper_GET str_int_503 str_int_200)

lemma custom_html:
  "check_custom_api test_checker (sample_world h i (Inr (response_html b)))
     ''/api/html-endpoint'' ''GET'' None PNone 200
   = \<lparr>endpoint = ''https://test-app.com/api/html-endpoint'', method' = ''GET'',
      status_code = 200, response_time = 1, success = True,
      response_body = PNone, error_message = None\<rparr>"
  by (simp add: fixture_defs probe_defs upper_GET)

section \<open>Deployment aggregation\<close>

text \<open>
  Claim C1. Whenever \<^verbatim>\<open>check_deployment_status\<close> returns, its two checks are the
  results of the health probe and of the info probe, in that order, and the deployment
  status is \<^verbatim>\<open>HEALTHY\<close> if both probes succeeded, \<^verbatim>\<open>DEGRADED\<close> if the health
  probe succeeded and the info probe did not, and \<^verbatim>\<open>DOWN\<close> if the health probe
  failed, whatever the info probe did.
\<close>

theorem deployment_status_truth_table:
  assumes "check_deployment_status self w name = Inr m"
  shows "\<exists>h i. check_actuator_health self w = Inr h \<and> check_actuator_info self w = Inr i
           \<and> api_checks m = [h, i]
           \<and> (success h \<and> success i \<longrightarrow> deployment_status m = ''HEALTHY'')
           \<and> (success h \<and> \<not> success i \<longrightarrow> deployment_status m = ''DEGRADED'')
           \<and> (\<not> success h \<longrightarrow> deployment_status m = ''DOWN'')"
proof -
  from assms obtain h i where hi: "check_actuator_health self w = Inr h"
      "check_actuator_info self w = Inr i"
      "m = \<lparr>module_name' = name, overall_status = derive_status h i,
          actuator_health = (if truthy (response_body h) then response_body h else PDict []),
          api_checks = [h, i], deployment_status = derive_status h i,
          timestamp = datetime_now w\<rparr>"
    by (rule check_deployment_status_Inr)
  have "api_checks m = [h, i]" "deployment_status m = derive_status h i"
    using hi(3) by simp_all
  with hi(1,2) show ?thesis
    by (auto simp: derive_status_eq)
qed

theorem deployment_status_truth_table_witness:
  "(\<exists>m. check_deployment_status test_checker
           (sample_world (Inr response_up) (Inr response_up) (Inl ''Connection refused'')) ''m'' = Inr m
        \<and> deployment_status m = ''HEALTHY'')
   \<and> (\<exists>m. check_deployment_status test_checker
           (sample_world (Inr response_up) (Inr response_down) (Inl ''Connection refused'')) ''m'' = Inr m
        \<and> deployment_status m = ''DEGRADED'')
   \<and> (\<exists>m. check_deployment_status test_checker
           (sample_world (Inr response_down) (Inr response_up) (Inl ''Connection refused'')) ''m'' = Inr m
        \<and> deployment_status m = ''DOWN'')"
proof (intro conjI)
  obtain m where m: "check_deployment_status test_checker
           (sample_world (Inr response_up) (Inr response_up) (Inl ''Connection refused'')) ''m'' = Inr m"
    by (simp add: check_deployment_status_def Let_def health_up info_up)
  from deployment_status_truth_table [OF m] have "deployment_status m = ''HEALTHY''"
    by (auto simp: health_up info_up)
  with m show "\<exists>m. check_deployment_status test_checker
           (sample_world (Inr response_up) (Inr response_up) (Inl ''Connection refused'')) ''m'' = Inr m
        \<and> deployment_status m = ''HEALTHY''"
    by blast
next
  obtain m where m: "check_deployment_status test_checker
           (sample_world (Inr response_up) (Inr response_down) (Inl ''Connection refused'')) ''m'' = Inr m"
    by (simp add: check_deployment_status_def Let_def health_up info_down)
  from deployment_status_truth_table [OF m] have "deployment_status m = ''DEGRADED''"
    by (auto simp: health_up info_down)
  with m show "\<exists>m. check_deployment_status test_checker
           (sample_world (Inr response_up) (Inr response_down) (Inl ''Connection refused'')) ''m'' = Inr m
        \<and> deployment_status m = ''DEGRADED''"
    by blast
next
  obtain m where m: "check_deployment_status test_checker
           (sample_world (Inr response_down) (Inr response_up) (Inl ''Connection refused'')) ''m'' = Inr m"
    by (simp add: check_deployment_status_def Let_def health_down info_up)
  from deployment_status_truth_table [OF m] have "deployment_status m = ''DOWN''"
    by (auto simp: health_down info_up)
  with m show "\<exists>m. check_deployment_status test_checker
           (sample_world (Inr response_down) (Inr response_up) (Inl ''Connection refused'')) ''m'' = Inr m
        \<and> deployment_status m = ''DOWN''"
    by blast
qed

text \<open>
  Claim C9. The initial value \<^verbatim>\<open>UNKNOWN\<close> is never returned: in every module
  status that \<^verbatim>\<open>check_deployment_status\<close> returns, the overall status and the
  deployment status are one of \<^verbatim>\<open>HEALTHY\<close>, \<^verbatim>\<open>DEGRADED\<close> and \<^verbatim>\<open>DOWN\<close>.
\<close>

theorem unknown_unreachable:
  assumes "check_deployment_status self w name = Inr m"
  shows "overall_status m \<in> {''HEALTHY'', ''DEGRADED'', ''DOWN''}
       \<and> deployment_status m \<in> {''HEALTHY'', ''DEGRADED'', ''DOWN''}
       \<and> overall_status m \<noteq> ''UNKNOWN'' \<and> deployment_status m \<noteq> ''UNKNOWN''"
proof -
  from assms obtain h i where
      "m = \<lparr>module_name' = name, overall_status = derive_status h i,
          actuator_health = (if truthy (response_body h) then response_body h else PDict []),
          api_checks = [h, i], deployment_status = derive_status h i,
          timestamp = datetime_now w\<rparr>"
    by (rule check_deployment_status_Inr)
  then have "overall_status m = derive_status h i" "deployment_status m = derive_status h i"
    by simp_all
  then show ?thesis
    by (simp add: derive_status_eq)
qed

theorem unknown_unreachable_witness:
  "\<exists>m. check_deployment_status test_checker
           (sample_world (Inr response_up) (Inr response_down) (Inl ''Connection refused'')) ''m'' = Inr m
      \<and> overall_status m \<in> {''HEALTHY'', ''DEGRADED'', ''DOWN''}
      \<and> deployment_status m \<in> {''HEALTHY'', ''DEGRADED'', ''DOWN''}
      \<and> overall_status m \<noteq> ''UNKNOWN'' \<and> deployment_status m \<noteq> ''UNKNOWN''"
proof -
  obtain m where m: "check_deployment_status test_checker
           (sample_world (Inr response_up) (Inr response_down) (Inl ''Connection refused'')) ''m'' = Inr m"
    by (simp add: check_deployment_status_def Let_def health_up info_down)
  from m unknown_unreachable [OF m] show ?thesis
    by (intro exI [of _ m] conjI) blast+
qed

section \<open>The general probe's URL\<close>

text \<open>
  Claim C10. The test for a fully qualified URL is the literal prefix \<^verbatim>\<open>http\<close>: an
  endpoint that begins with these four characters, \<^verbatim>\<open>httpdocs/x\<close> included, is the
  target URL as it stands; any other endpoint is appended to the base URL with nothing in
  between. That URL is the one requested and the one recorded in the result.
\<close>

theorem full_url_prefix_test:
  "full_url self (''http'' @ rest) = ''http'' @ rest
   \<and> ((\<nexists>r. ep = ''http'' @ r) \<longrightarrow> full_url self ep = base_url self @ ep)
   \<and> full_url self ''httpdocs/x'' = ''httpdocs/x''
   \<and> req_url (custom_request self ep m headers json_data) = full_url self ep
   \<and> endpoint (check_custom_api self w ep m headers json_data expected_status) = full_url self ep"
proof -
  have a: "full_url self (''http'' @ rest) = ''http'' @ rest"
    by (simp add: full_url_def startswith_def)
  have b: "(\<nexists>r. ep = ''http'' @ r) \<longrightarrow> full_url self ep = base_url self @ ep"
    by (simp add: full_url_def startswith_iff)
  have c: "full_url self ''httpdocs/x'' = ''httpdocs/x''"
    by (simp add: full_url_def startswith_def)
  have d: "req_url (custom_request self ep m headers json_data) = full_url self ep"
    by (simp add: custom_request_def)
  have e: "endpoint (check_custom_api self w ep m headers json_data expected_status) = full_url self ep"
    by (simp add: check_custom_api_def request_failed_def Let_def split: sum.splits)
  from a b c d e show ?thesis by blast
qed

theorem full_url_prefix_test_witness:
  "(\<nexists>r. ''/api/users'' = ''http'' @ r)
   \<and> full_url test_checker ''/api/users'' = ''https://test-app.com/api/users''
   \<and> full_url test_checker ''https://other.org/x'' = ''https://other.org/x''"
proof -
  have n: "\<nexists>r. ''/api/users'' = ''http'' @ r" by simp
  have b: "base_url test_checker = ''https://test-app.com''"
    by (simp add: fixture_defs)
  from full_url_prefix_test [of test_checker "''s://other.org/x''" "''/api/users''"] n
  have "full_url test_checker ''/api/users'' = base_url test_checker @ ''/api/users''"
    and "full_url test_checker (''http'' @ ''s://other.org/x'') = ''http'' @ ''s://other.org/x''"
    by blast+
  with n b show ?thesis by simp
qed

section \<open>Contract validation\<close>

text \<open>
  Claim C5. When the probe of \<^verbatim>\<open>validate_request_response_contract\<close> does not
  succeed, the report is returned at once, invalid, with the single error
  \<^verbatim>\<open>API call failed: \<close> followed by the probe's error message. The report is the
  same for every expected schema: no field of the schema is looked at.
\<close>

theorem contract_short_circuit:
  assumes "\<not> success (check_custom_api self w ep m headers request_data 200)"
  shows "\<exists>msg. error_message (check_custom_api self w ep m headers request_data 200) = Some msg
          \<and> validate_request_response_contract self w ep m request_data schema headers
              = Inr \<lparr>cr_endpoint = ep, cr_method = m, contract_valid = False,
                     request_validation = [], response_validation = [],
                     errors = [''API call failed: '' @ msg]\<rparr>"
proof -
  from assms obtain msg where
    msg: "error_message (check_custom_api self w ep m headers request_data 200) = Some msg"
    using custom_failure_has_message by blast
  have "validate_request_response_contract self w ep m request_data schema headers
          = Inr \<lparr>cr_endpoint = ep, cr_method = m, contract_valid = False,
                 request_validation = [], response_validation = [],
                 errors = [''API call failed: '' @ msg]\<rparr>"
    using assms msg by (simp add: validate_request_response_contract_def Let_def)
  with msg show ?thesis by blast
qed

theorem contract_short_circuit_witness:
  "\<not> success (check_custom_api test_checker
                 (sample_world (Inr response_up) (Inr response_up) (Inl ''Connection refused''))
                 ''/api/users'' ''GET'' None PNone 200)
   \<and> validate_request_response_contract test_checker
        (sample_world (Inr response_up) (Inr response_up) (Inl ''Connection refused''))
        ''/api/users'' ''GET'' PNone (Some [(''users'', ''list'')]) None
      = Inr \<lparr>cr_endpoint = ''/api/users'', cr_method = ''GET'', contract_valid = False,
             request_validation = [], response_validation = [],
             errors = [''API call failed: Connection refused'']\<rparr>"
proof -
  have f: "\<not> success (check_custom_api test_checker
                 (sample_world (Inr response_up) (Inr response_up) (Inl ''Connection refused''))
                 ''/api/users'' ''GET'' None PNone 200)"
    by (simp add: custom_refused)
  from contract_short_circuit [OF f, where schema = "Some [(''users'', ''list'')]"] f show ?thesis
    by (auto simp: custom_refused)
qed

section \<open>Error messages\<close>

text \<open>
  Claim C6. A fixed-path probe (health, info) that receives a status other than 200 returns
  the error message \<^verbatim>\<open>HTTP <code>: <raw response text>\<close>; the general probe that
  receives a status other than the expected one returns
  \<^verbatim>\<open>Expected <expected>, got <actual>\<close>. No message has both shapes.
\<close>

theorem error_message_shapes:
  "(reply (session_request w (get_request self (base_url self @ ''/actuator/health''))) = Inr rh
      \<and> resp_status_code rh \<noteq> 200
    \<longrightarrow> (\<exists>r. check_actuator_health self w = Inr r
             \<and> error_message r
                 = Some (''HTTP '' @ str_int (resp_status_code rh) @ '': '' @ resp_text rh)))
   \<and> (reply (session_request w (get_request self (base_url self @ ''/actuator/info''))) = Inr ri
      \<and> resp_status_code ri \<noteq> 200
    \<longrightarrow> (\<exists>r. check_actuator_info self w = Inr r
             \<and> error_message r
                 = Some (''HTTP '' @ str_int (resp_status_code ri) @ '': '' @ resp_text ri)))
   \<and> (reply (session_request w (custom_request self ep m headers json_data)) = Inr rc
      \<and> resp_status_code rc \<noteq> expected_status
    \<longrightarrow> error_message (check_custom_api self w ep m headers json_data expected_status)
          = Some (''Expected '' @ str_int expected_status @ '', got ''
                  @ str_int (resp_status_code rc)))
   \<and> ''HTTP '' @ a \<noteq> ''Expected '' @ b"
proof (intro conjI impI)
  assume "reply (session_request w (get_request self (base_url self @ ''/actuator/health''))) = Inr rh
      \<and> resp_status_code rh \<noteq> 200"
  then show "\<exists>r. check_actuator_health self w = Inr r
             \<and> error_message r
                 = Some (''HTTP '' @ str_int (resp_status_code rh) @ '': '' @ resp_text rh)"
    unfolding check_actuator_health_def by (simp add: check_fixed_non200)
next
  assume "reply (session_request w (get_request self (base_url self @ ''/actuator/info''))) = Inr ri
      \<and> resp_status_code ri \<noteq> 200"
  then show "\<exists>r. check_actuator_info self w = Inr r
             \<and> error_message r
                 = Some (''HTTP '' @ str_int (resp_status_code ri) @ '': '' @ resp_text ri)"
    unfolding check_actuator_info_def by (simp add: check_fixed_non200)
next
  assume "reply (session_request w (custom_request self ep m headers json_data)) = Inr rc
      \<and> resp_status_code rc \<noteq> expected_status"
  then show "error_message (check_custom_api self w ep m headers json_data expected_status)
          = Some (''Expected '' @ str_int expected_status @ '', got ''
                  @ str_int (resp_status_code rc))"
    by (simp add: check_custom_api_received)
next
  show "''HTTP '' @ a \<noteq> ''Expected '' @ b" by simp
qed

theorem error_message_shapes_witness:
  \<open>(\<exists>r. check_actuator_health test_checker
            (sample_world (Inr response_down) (Inr response_down) (Inr response_down)) = Inr r
         \<and> error_message r = Some ''HTTP 503: {"status":"DOWN"}'')
   \<and> (\<exists>r. check_actuator_info test_checker
            (sample_world (Inr response_down) (Inr response_down) (Inr response_down)) = Inr r
         \<and> error_message r = Some ''HTTP 503: {"status":"DOWN"}'')
   \<and> error_message (check_custom_api test_checker
            (sample_world (Inr response_down) (Inr response_down) (Inr response_down))
            ''/api/users'' ''GET'' None PNone 200) = Some ''Expected 200, got 503''\<close>
proof -
  let ?w = "sample_world (Inr response_down) (Inr response_down) (Inr response_down)"
  have h: "reply (session_request ?w (get_request test_checker (base_url test_checker @ ''/actuator/health'')))
             = Inr response_down \<and> resp_status_code response_down \<noteq> 200"
    by (simp add: fixture_defs get_request_def)
  have i: "reply (session_request ?w (get_request test_checker (base_url test_checker @ ''/actuator/info'')))
             = Inr response_down \<and> resp_status_code response_down \<noteq> 200"
    by (simp add: fixture_defs get_request_def)
  have c: "reply (session_request ?w (custom_request test_checker ''/api/users'' ''GET'' None PNone))
             = Inr response_down \<and> resp_status_code response_down \<noteq> 200"
    by (simp add: fixture_defs custom_request_def full_url_def startswith_def)
  have t: \<open>''HTTP '' @ str_int (resp_status_code response_down) @ '': '' @ resp_text response_down
           = ''HTTP 503: {"status":"DOWN"}''\<close>
    by (simp add: response_down_def str_int_503)
  have e: "''Expected '' @ str_int 200 @ '', got '' @ str_int (resp_status_code response_down)
           = ''Expected 200, got 503''"
    by (simp add: response_down_def str_int_503 str_int_200)
  from error_message_shapes [of ?w test_checker response_down response_down
      "''/api/users''" "''GET''" None PNone response_down 200] h i c
  show ?thesis
    unfolding t e by blast
qed

text \<open>
  Claim C7, as the code has it. When a response is received, the status is not the
  expected one and the body decodes as JSON, the fixed-path probes do set an error message,
  \<^verbatim>\<open>HTTP <code>: <raw response text>\<close>, and the general probe sets
  \<^verbatim>\<open>Expected <expected>, got <actual>\<close> (with a comma) and keeps the decoded
  body.
\<close>

theorem failure_messages_with_json_body:
  "(reply (session_request w (get_request self (base_url self @ ''/actuator/health''))) = Inr rh
      \<and> resp_status_code rh \<noteq> 200 \<and> resp_json rh = Inr bh
    \<longrightarrow> (\<exists>r. check_actuator_health self w = Inr r \<and> \<not> success r
             \<and> error_message r
                 = Some (''HTTP '' @ str_int (resp_status_code rh) @ '': '' @ resp_text rh)))
   \<and> (reply (session_request w (get_request self (base_url self @ ''/actuator/info''))) = Inr ri
      \<and> resp_status_code ri \<noteq> 200 \<and> resp_json ri = Inr bi
    \<longrightarrow> (\<exists>r. check_actuator_info self w = Inr r \<and> \<not> success r
             \<and> error_message r
                 = Some (''HTTP '' @ str_int (resp_status_code ri) @ '': '' @ resp_text ri)))
   \<and> (reply (session_request w (custom_request self ep m headers json_data)) = Inr rc
      \<and> resp_status_code rc \<noteq> expected_status \<and> resp_json rc = Inr bc
    \<longrightarrow> \<not> success (check_custom_api self w ep m headers json_data expected_status)
        \<and> response_body (check_custom_api self w ep m headers json_data expected_status) = bc
        \<and> error_message (check_custom_api self w ep m headers json_data expected_status)
          = Some (''Expected '' @ str_int expected_status @ '', got ''
                  @ str_int (resp_status_code rc)))"
proof (intro conjI impI)
  assume "reply (session_request w (get_request self (base_url self @ ''/actuator/health''))) = Inr rh
      \<and> resp_status_code rh \<noteq> 200 \<and> resp_json rh = Inr bh"
  then show "\<exists>r. check_actuator_health self w = Inr r \<and> \<not> success r
             \<and> error_message r
                 = Some (''HTTP '' @ str_int (resp_status_code rh) @ '': '' @ resp_text rh)"
    unfolding check_actuator_health_def by (simp add: check_fixed_non200)
next
  assume "reply (session_request w (get_request self (base_url self @ ''/actuator/info''))) = Inr ri
      \<and> resp_status_code ri \<noteq> 200 \<and> resp_json ri = Inr bi"
  then show "\<exists>r. check_actuator_info self w = Inr r \<and> \<not> success r
             \<and> error_message r
                 = Some (''HTTP '' @ str_int (resp_status_code ri) @ '': '' @ resp_text ri)"
    unfolding check_actuator_info_def by (simp add: check_fixed_non200)
next
  assume a: "reply (session_request w (custom_request self ep m headers json_data)) = Inr rc
      \<and> resp_status_code rc \<noteq> expected_status \<and> resp_json rc = Inr bc"
  then show "\<not> success (check_custom_api self w ep m headers json_data expected_status)"
    by (simp add: check_custom_api_received)
  from a show "response_body (check_custom_api self w ep m headers json_data expected_status) = bc"
    by (simp add: check_custom_api_received)
  from a show "error_message (check_custom_api self w ep m headers json_data expected_status)
          = Some (''Expected '' @ str_int expected_status @ '', got ''
                  @ str_int (resp_status_code rc))"
    by (simp add: check_custom_api_received)
qed

theorem failure_messages_with_json_body_witness:
  \<open>(\<exists>r. check_actuator_health test_checker
            (sample_world (Inr response_down) (Inr response_down) (Inr response_down)) = Inr r
         \<and> \<not> success r \<and> error_message r = Some ''HTTP 503: {"status":"DOWN"}'')
   \<and> (\<exists>r. check_actuator_info test_checker
            (sample_world (Inr response_down) (Inr response_down) (Inr response_down)) = Inr r
         \<and> \<not> success r \<and> error_message r = Some ''HTTP 503: {"status":"DOWN"}'')
   \<and> error_message (check_custom_api test_checker
            (sample_world (Inr response_down) (Inr response_down) (Inr response_down))
            ''/api/users'' ''GET'' None PNone 200) = Some ''Expected 200, got 503''\<close>
proof -
  let ?w = "sample_world (Inr response_down) (Inr response_down) (Inr response_down)"
  let ?b = "PDict [(''status'', PStr ''DOWN'')]"
  have h: "reply (session_request ?w (get_request test_checker (base_url test_checker @ ''/actuator/health'')))
             = Inr response_down \<and> resp_status_code response_down \<noteq> 200
           \<and> resp_json response_down = Inr ?b"
    by (simp add: fixture_defs get_request_def)
  have i: "reply (session_request ?w (get_request test_checker (base_url test_checker @ ''/actuator/info'')))
             = Inr response_down \<and> resp_status_code response_down \<noteq> 200
           \<and> resp_json response_down = Inr ?b"
    by (simp add: fixture_defs get_request_def)
  have c: "reply (session_request ?w (custom_request test_checker ''/api/users'' ''GET'' None PNone))
             = Inr response_down \<and> resp_status_code response_down \<noteq> 200
           \<and> resp_json response_down = Inr ?b"
    by (simp add: fixture_defs custom_request_def full_url_def startswith_def)
  have t: \<open>''HTTP '' @ str_int (resp_status_code response_down) @ '': '' @ resp_text response_down
           = ''HTTP 503: {"status":"DOWN"}''\<close>
    by (simp add: response_down_def str_int_503)
  have e: "''Expected '' @ str_int 200 @ '', got '' @ str_int (resp_status_code response_down)
           = ''Expected 200, got 503''"
    by (simp add: response_down_def str_int_503 str_int_200)
  from failure_messages_with_json_body [of ?w test_checker response_down ?b response_down ?b
      "''/api/users''" "''GET''" None PNone response_down 200 ?b] h i c
  show ?thesis
    unfolding t e by blast
qed

text \<open>
  The claim as stated, that the fixed-path probes leave the message unset, fails on the
  health probe at a 503 response whose body is the JSON object
  \<^verbatim>\<open>{"status":"DOWN"}\<close>.
\<close>

theorem fixed_probe_failure_message_unset_counterexample:
  \<open>resp_json response_down = Inr (PDict [(''status'', PStr ''DOWN'')])
   \<and> check_actuator_health test_checker
        (sample_world (Inr response_down) (Inr response_up) (Inl ''Connection refused''))
      = Inr \<lparr>endpoint = ''https://test-app.com/actuator/health'', method' = ''GET'',
             status_code = 503, response_time = 1, success = False,
             response_body = PNone, error_message = Some ''HTTP 503: {"status":"DOWN"}''\<rparr>\<close>
  by (simp add: fixture_defs probe_defs str_int_503)

section \<open>Success and status code\<close>

text \<open>
  Claim C8, as the code has it. The result of the general probe satisfies
  \<open>success = (status_code = expected_status)\<close> whenever a response was received, and on
  the transport-failure path whenever the expected status is not the sentinel 0; every
  result of a fixed-path probe satisfies it for the expected status 200.
\<close>

theorem success_iff_status:
  "(expected_status \<noteq> 0
      \<or> (\<exists>resp. reply (session_request w (custom_request self ep m headers json_data)) = Inr resp)
    \<longrightarrow> success (check_custom_api self w ep m headers json_data expected_status)
        = (status_code (check_custom_api self w ep m headers json_data expected_status)
           = expected_status))
   \<and> (check_actuator_health self w = Inr rh \<longrightarrow> success rh = (status_code rh = 200))
   \<and> (check_actuator_info self w = Inr ri \<longrightarrow> success ri = (status_code ri = 200))"
proof (intro conjI impI)
  assume a: "expected_status \<noteq> 0
      \<or> (\<exists>resp. reply (session_request w (custom_request self ep m headers json_data)) = Inr resp)"
  show "success (check_custom_api self w ep m headers json_data expected_status)
        = (status_code (check_custom_api self w ep m headers json_data expected_status)
           = expected_status)"
  proof (cases "reply (session_request w (custom_request self ep m headers json_data))")
    case (Inl e)
    with a have "expected_status \<noteq> 0" by auto
    with Inl show ?thesis by (simp add: check_custom_api_failed)
  next
    case (Inr resp)
    then show ?thesis by (simp add: check_custom_api_received)
  qed
next
  assume "check_actuator_health self w = Inr rh"
  then show "success rh = (status_code rh = 200)"
    unfolding check_actuator_health_def by (rule check_fixed_success_iff)
next
  assume "check_actuator_info self w = Inr ri"
  then show "success ri = (status_code ri = 200)"
    unfolding check_actuator_info_def by (rule check_fixed_success_iff)
qed

theorem success_iff_status_witness:
  "success (check_custom_api test_checker
              (sample_world (Inr response_up) (Inr response_up) (Inl ''Connection refused''))
              ''/api/users'' ''GET'' None PNone 201)
   = (status_code (check_custom_api test_checker
              (sample_world (Inr response_up) (Inr response_up) (Inl ''Connection refused''))
              ''/api/users'' ''GET'' None PNone 201) = 201)
   \<and> (\<exists>r. check_actuator_health test_checker
              (sample_world (Inr response_up) (Inr response_down) (Inl ''Connection refused'')) = Inr r
          \<and> success r = (status_code r = 200))
   \<and> (\<exists>r. check_actuator_info test_checker
              (sample_world (Inr response_up) (Inr response_down) (Inl ''Connection refused'')) = Inr r
          \<and> success r = (status_code r = 200))"
proof -
  let ?w = "sample_world (Inr response_up) (Inr response_down) (Inl ''Connection refused'')"
  let ?v = "sample_world (Inr response_up) (Inr response_up) (Inl ''Connection refused'')"
  obtain rh where rh: "check_actuator_health test_checker ?w = Inr rh"
    by (simp add: health_up)
  obtain ri where ri: "check_actuator_info test_checker ?w = Inr ri"
    by (simp add: info_down)
  have n: "(201::int) \<noteq> 0" by simp
  from success_iff_status [of 201 ?v test_checker "''/api/users''" "''GET''" None PNone] n
  have c: "success (check_custom_api test_checker ?v ''/api/users'' ''GET'' None PNone 201)
   = (status_code (check_custom_api test_checker ?v ''/api/users'' ''GET'' None PNone 201) = 201)"
    by blast
  from success_iff_status [of _ ?w test_checker _ _ _ _ rh ri] rh ri
  have "success rh = (status_code rh = 200)" "success ri = (status_code ri = 200)"
    by blast+
  with rh ri c show ?thesis by blast
qed

text \<open>
  The claim as stated, for any expected status, fails when the caller expects status 0 and
  the transport fails: the result has status code 0 and is not a success.
\<close>

theorem success_iff_status_counterexample:
  "success (check_custom_api test_checker
              (sample_world (Inr response_up) (Inr response_up) (Inl ''Connection refused''))
              ''/api/users'' ''GET'' None PNone 0)
   \<noteq> (status_code (check_custom_api test_checker
              (sample_world (Inr response_up) (Inr response_up) (Inl ''Connection refused''))
              ''/api/users'' ''GET'' None PNone 0) = 0)"
  by (simp add: custom_refused)

section \<open>Response bodies\<close>

text \<open>
  Claim C3, as the code has it. The general probe returns the decoded body whenever a
  response is received and its body decodes, whatever the status, and \<^verbatim>\<open>None\<close>
  when decoding fails. The fixed-path probes return the decoded body only with status 200,
  and \<^verbatim>\<open>None\<close> for every other status, whatever the body.
\<close>

theorem response_body_decoded:
  "(reply (session_request w (custom_request self ep m headers json_data)) = Inr rc
      \<and> resp_json rc = Inr v
    \<longrightarrow> response_body (check_custom_api self w ep m headers json_data expected_status) = v)
   \<and> (reply (session_request w (custom_request self ep m headers json_data)) = Inr rc
      \<and> resp_json rc = Inl d
    \<longrightarrow> response_body (check_custom_api self w ep m headers json_data expected_status) = PNone)
   \<and> (reply (session_request w (get_request self (base_url self @ ''/actuator/health''))) = Inr rh
      \<and> resp_status_code rh = 200 \<and> resp_json rh = Inr vh
    \<longrightarrow> (\<exists>r. check_actuator_health self w = Inr r \<and> success r \<and> response_body r = vh))
   \<and> (reply (session_request w (get_request self (base_url self @ ''/actuator/health''))) = Inr rh
      \<and> resp_status_code rh \<noteq> 200
    \<longrightarrow> (\<exists>r. check_actuator_health self w = Inr r \<and> \<not> success r \<and> response_body r = PNone))
   \<and> (reply (session_request w (get_request self (base_url self @ ''/actuator/info''))) = Inr ri
      \<and> resp_status_code ri = 200 \<and> resp_json ri = Inr vi
    \<longrightarrow> (\<exists>r. check_actuator_info self w = Inr r \<and> success r \<and> response_body r = vi))
   \<and> (reply (session_request w (get_request self (base_url self @ ''/actuator/info''))) = Inr ri
      \<and> resp_status_code ri \<noteq> 200
    \<longrightarrow> (\<exists>r. check_actuator_info self w = Inr r \<and> \<not> success r \<and> response_body r = PNone))"
proof (intro conjI impI)
  assume "reply (session_request w (custom_request self ep m headers json_data)) = Inr rc
      \<and> resp_json rc = Inr v"
  then show "response_body (check_custom_api self w ep m headers json_data expected_status) = v"
    by (simp add: check_custom_api_received)
next
  assume "reply (session_request w (custom_request self ep m headers json_data)) = Inr rc
      \<and> resp_json rc = Inl d"
  then show "response_body (check_custom_api self w ep m headers json_data expected_status) = PNone"
    by (simp add: check_custom_api_received)
next
  assume "reply (session_request w (get_request self (base_url self @ ''/actuator/health''))) = Inr rh
      \<and> resp_status_code rh = 200 \<and> resp_json rh = Inr vh"
  then show "\<exists>r. check_actuator_health self w = Inr r \<and> success r \<and> response_body r = vh"
    unfolding check_actuator_health_def by (simp add: check_fixed_200_json)
next
  assume "reply (session_request w (get_request self (base_url self @ ''/actuator/health''))) = Inr rh
      \<and> resp_status_code rh \<noteq> 200"
  then show "\<exists>r. check_actuator_health self w = Inr r \<and> \<not> success r \<and> response_body r = PNone"
    unfolding check_actuator_health_def by (simp add: check_fixed_non200)
next
  assume "reply (session_request w (get_request self (base_url self @ ''/actuator/info''))) = Inr ri
      \<and> resp_status_code ri = 200 \<and> resp_json ri = Inr vi"
  then show "\<exists>r. check_actuator_info self w = Inr r \<and> success r \<and> response_body r = vi"
    unfolding check_actuator_info_def by (simp add: check_fixed_200_json)
next
  assume "reply (session_request w (get_request self (base_url self @ ''/actuator/info''))) = Inr ri
      \<and> resp_status_code ri \<noteq> 200"
  then show "\<exists>r. check_actuator_info self w = Inr r \<and> \<not> success r \<and> response_body r = PNone"
    unfolding check_actuator_info_def by (simp add: check_fixed_non200)
qed

theorem response_body_decoded_witness:
  "response_body (check_custom_api test_checker
       (sample_world (Inr response_up) (Inr response_down) (Inr response_down))
       ''/api/users'' ''GET'' None PNone 200) = PDict [(''status'', PStr ''DOWN'')]
   \<and> response_body (check_custom_api test_checker
       (sample_world (Inr response_down) (Inr response_up) (Inr (response_html True)))
       ''/api/users'' ''GET'' None PNone 200) = PNone
   \<and> (\<exists>r. check_actuator_health test_checker
              (sample_world (Inr response_up) (Inr response_down) (Inr response_down)) = Inr r
          \<and> success r \<and> response_body r = PDict [(''status'', PStr ''UP'')])
   \<and> (\<exists>r. check_actuator_health test_checker
              (sample_world (Inr response_down) (Inr response_up) (Inr (response_html True))) = Inr r
          \<and> \<not> success r \<and> response_body r = PNone)
   \<and> (\<exists>r. check_actuator_info test_checker
              (sample_world (Inr response_down) (Inr response_up) (Inr (response_html True))) = Inr r
          \<and> success r \<and> response_body r = PDict [(''status'', PStr ''UP'')])
   \<and> (\<exists>r. check_actuator_info test_checker
              (sample_world (Inr response_up) (Inr response_down) (Inr response_down)) = Inr r
          \<and> \<not> success r \<and> response_body r = PNone)"
proof -
  let ?w = "sample_world (Inr response_up) (Inr response_down) (Inr response_down)"
  let ?v = "sample_world (Inr response_down) (Inr response_up) (Inr (response_html True))"
  let ?up = "PDict [(''status'', PStr ''UP'')]"
  let ?down = "PDict [(''status'', PStr ''DOWN'')]"
  let ?d = "\<lparr>is_request_exception = True, decode_msg = ''Expecting value''\<rparr>"
  have wc: "reply (session_request ?w (custom_request test_checker ''/api/users'' ''GET'' None PNone))
              = Inr response_down \<and> resp_json response_down = Inr ?down"
    by (simp add: fixture_defs custom_request_def full_url_def startswith_def)
  have wh: "reply (session_request ?w (get_request test_checker (base_url test_checker @ ''/actuator/health'')))
              = Inr response_up \<and> resp_status_code response_up = 200 \<and> resp_json response_up = Inr ?up"
    by (simp add: fixture_defs get_request_def)
  have wi: "reply (session_request ?w (get_request test_checker (base_url test_checker @ ''/actuator/info'')))
              = Inr response_down \<and> resp_status_code response_down \<noteq> 200"
    by (simp add: fixture_defs get_request_def)
  have vc: "reply (session_request ?v (custom_request test_checker ''/api/users'' ''GET'' None PNone))
              = Inr (response_html True) \<and> resp_json (response_html True) = Inl ?d"
    by (simp add: fixture_defs custom_request_def full_url_def startswith_def)
  have vh: "reply (session_request ?v (get_request test_checker (base_url test_checker @ ''/actuator/health'')))
              = Inr response_down \<and> resp_status_code response_down \<noteq> 200"
    by (simp add: fixture_defs get_request_def)
  have vi: "reply (session_request ?v (get_request test_checker (base_url test_checker @ ''/actuator/info'')))
              = Inr response_up \<and> resp_status_code response_up = 200 \<and> resp_json response_up = Inr ?up"
    by (simp add: fixture_defs get_request_def)
  note a = response_body_decoded [where w = ?w and self = test_checker and ep = "''/api/users''"
      and m = "''GET''" and headers = None and json_data = PNone and expected_status = 200
      and rc = response_down and v = ?down and rh = response_up and vh = ?up and ri = response_down]
  note b = response_body_decoded [where w = ?v and self = test_checker and ep = "''/api/users''"
      and m = "''GET''" and headers = None and json_data = PNone and expected_status = 200
      and rc = "response_html True" and d = ?d and rh = response_down and ri = response_up
      and vi = ?up]
  from a wc have 1: "response_body (check_custom_api test_checker ?w ''/api/users'' ''GET'' None PNone 200) = ?down"
    by blast
  from b vc have 2: "response_body (check_custom_api test_checker ?v ''/api/users'' ''GET'' None PNone 200) = PNone"
    by blast
  from a wh have 3: "\<exists>r. check_actuator_health test_checker ?w = Inr r \<and> success r \<and> response_body r = ?up"
    by blast
  from b vh have 4: "\<exists>r. check_actuator_health test_checker ?v = Inr r \<and> \<not> success r \<and> response_body r = PNone"
    by blast
  from b vi have 5: "\<exists>r. check_actuator_info test_checker ?v = Inr r \<and> success r \<and> response_body r = ?up"
    by blast
  from a wi have 6: "\<exists>r. check_actuator_info test_checker ?w = Inr r \<and> \<not> success r \<and> response_body r = PNone"
    by blast
  from 1 2 3 4 5 6 show ?thesis by (intro conjI)
qed

text \<open>
  The claim as stated, that a non-200 response with a JSON body still yields a body, fails
  on the info probe at a 503 response whose body is \<^verbatim>\<open>{"status":"DOWN"}\<close>.
\<close>

theorem fixed_probe_drops_json_body_counterexample:
  \<open>resp_json response_down = Inr (PDict [(''status'', PStr ''DOWN'')])
   \<and> check_actuator_info test_checker
        (sample_world (Inr response_up) (Inr response_down) (Inl ''Connection refused''))
      = Inr \<lparr>endpoint = ''https://test-app.com/actuator/info'', method' = ''GET'',
             status_code = 503, response_time = 1, success = False,
             response_body = PNone, error_message = Some ''HTTP 503: {"status":"DOWN"}''\<rparr>\<close>
  by (simp add: fixture_defs probe_defs str_int_503)

text \<open>
  Claim C4. A response with the expected status whose body is not JSON should give a
  successful result without a body. The general probe does so; the fixed-path probes do
  not: on status 200 with an HTML body the health probe returns a failure with status code
  0 when the decode error is a \<^verbatim>\<open>RequestException\<close>, and the info probe lets
  the error escape when it is not.
\<close>

theorem fixed_probe_non_json_body:
  "check_actuator_health test_checker
     (sample_world (Inr (response_html True)) (Inr (response_html False)) (Inr (response_html True)))
   = Inr \<lparr>endpoint = ''https://test-app.com/actuator/health'', method' = ''GET'',
          status_code = 0, response_time = 2, success = False,
          response_body = PNone, error_message = Some ''Expecting value''\<rparr>
   \<and> check_actuator_info test_checker
     (sample_world (Inr (response_html True)) (Inr (response_html False)) (Inr (response_html True)))
   = Inl (JSONDecodeError ''Expecting value'')
   \<and> check_custom_api test_checker
     (sample_world (Inr (response_html True)) (Inr (response_html False)) (Inr (response_html True)))
     ''/api/html-endpoint'' ''GET'' None PNone 200
   = \<lparr>endpoint = ''https://test-app.com/api/html-endpoint'', method' = ''GET'',
      status_code = 200, response_time = 1, success = True,
      response_body = PNone, error_message = None\<rparr>"
  by (simp add: fixture_defs probe_defs upper_GET)

section \<open>Contract validation on a response without a body\<close>

text \<open>
  Claim C2. \<^verbatim>\<open>validate_request_response_contract\<close> should always return a
  report. On a successful probe whose body is not JSON, with a schema of one field, the
  membership test on \<^verbatim>\<open>None\<close> raises \<^verbatim>\<open>TypeError\<close> instead.
\<close>

theorem validate_contract_raises:
  "validate_request_response_contract test_checker
     (sample_world (Inr response_up) (Inr response_up) (Inr (response_html True)))
     ''/api/html-endpoint'' ''GET'' PNone (Some [(''users'', ''list'')]) None
   = Inl TypeError"
  by (simp add: validate_request_response_contract_def custom_html)

end
